theory Spec2Isabelle
  imports Complex_Main "HOL-Library.Sublist"
begin

section \<open>Python values\<close>

text \<open>
  A Python \<open>str\<close> is the list of its code points, so that \<open>len\<close> counts what Python
  counts. \<open>lit\<close> turns an ASCII literal of the source into such a list; the accented
  letters of the Spanish messages are written as their code points.
\<close>

type_synonym pystr = "nat list"

definition lit :: "string \<Rightarrow> pystr" where
  "lit s = map of_char s"

text \<open>
  The values that travel through the dictionaries of the adapter. A \<open>dict\<close> is an
  association list with string keys, in insertion order.
\<close>

datatype pyval =
    VNone
  | VBool bool
  | VInt int
  | VFloat rat
  | VStr pystr
  | VList "pyval list"
  | VDict "(pystr \<times> pyval) list"

type_synonym pydict = "(pystr \<times> pyval) list"

text \<open>
  An exception object: whether its class derives from \<open>Exception\<close>, its class name and
  \<open>str(e)\<close>. \<open>SystemExit\<close>, \<open>KeyboardInterrupt\<close> and \<open>GeneratorExit\<close> derive from
  \<open>BaseException\<close> only, so that \<open>except Exception\<close> does not catch them.
\<close>

datatype exn = Exc (derives_exception: bool) (exc_class: pystr) (exc_str: pystr)

text \<open>Truth value testing, as \<open>if x\<close>, \<open>not x\<close> and \<open>x or y\<close> do it.\<close>

fun truthy :: "pyval \<Rightarrow> bool" where
  "truthy VNone = False"
| "truthy (VBool b) = b"
| "truthy (VInt i) = (i \<noteq> 0)"
| "truthy (VFloat r) = (r \<noteq> 0)"
| "truthy (VStr s) = (s \<noteq> [])"
| "truthy (VList xs) = (xs \<noteq> [])"
| "truthy (VDict d) = (d \<noteq> [])"

fun type_name :: "pyval \<Rightarrow> pystr" where
  "type_name VNone = lit ''NoneType''"
| "type_name (VBool b) = lit ''bool''"
| "type_name (VInt i) = lit ''int''"
| "type_name (VFloat r) = lit ''float''"
| "type_name (VStr s) = lit ''str''"
| "type_name (VList xs) = lit ''list''"
| "type_name (VDict d) = lit ''dict''"

text \<open>
  \<open>x.get(key, default)\<close>: on a dict the stored value or the default; on any other value
  of the model Python raises AttributeError, since none of them has a \<open>get\<close>.
\<close>

definition no_attribute :: "pyval \<Rightarrow> pystr \<Rightarrow> exn" where
  "no_attribute v name =
     Exc True (lit ''AttributeError'')
       ([39] @ type_name v @ [39] @ lit '' object has no attribute '' @ [39] @ name @ [39])"

fun py_get :: "pyval \<Rightarrow> pystr \<Rightarrow> pyval \<Rightarrow> exn + pyval" where
  "py_get (VDict d) k dflt = Inr (case map_of d k of Some v \<Rightarrow> v | None \<Rightarrow> dflt)"
| "py_get v k dflt = Inl (no_attribute v (lit ''get''))"

text \<open>\<open>d[key] = v\<close> on a dict: the key keeps its place when present, else it is appended.\<close>

fun dict_set :: "pydict \<Rightarrow> pystr \<Rightarrow> pyval \<Rightarrow> pydict" where
  "dict_set [] k v = [(k, v)]"
| "dict_set ((k', v') # d) k v = (if k' = k then (k, v) # d else (k', v') # dict_set d k v)"

definition dict_keys :: "pydict \<Rightarrow> pystr list" where
  "dict_keys d = map fst d"

section \<open>What the assistant is given\<close>

text \<open>
  The modules \<open>services\<close> and \<open>utils\<close> are imported by \<open>integration.py\<close> and are not
  among the sources, so what their functions do is a parameter: each returns a value or
  raises, \<open>is_online()\<close> included. The recognizer of \<open>core.py\<close> is a field as well, so
  that statements can range over utterances; the repository's own recognizer is
  \<open>core_recognize_once\<close> below. The last field is Python's \<open>str.lower\<close>; it is consulted
  only for strings with a code point from U+0100 on, whose case table is not written
  out here.
\<close>

record services =
  is_online :: "exn + bool"
  agent_process_command :: "pystr \<Rightarrow> int option \<Rightarrow> exn + pyval"
  process_ai_request :: "pystr \<Rightarrow> pystr \<Rightarrow> pystr \<Rightarrow> int \<Rightarrow> exn + pyval"
  recognize_once :: "int \<Rightarrow> pystr"
  str_lower :: "pystr \<Rightarrow> pystr"

text \<open>\<open>VoiceRecognitionService.recognize_once\<close> of \<open>core.py\<close>: a fixed utterance.\<close>

definition core_recognize_once :: "int \<Rightarrow> pystr" where
  "core_recognize_once max_duration_sec =
     lit ''lala pon una alarma para las 8 de la ma'' @ [0xF1] @ lit ''ana''"

section \<open>LalaAssistant\<close>

record assistant =
  user_id :: "int option"
  prefer_offline :: bool
  wake_word :: pystr
  is_active :: bool
  is_processing :: bool
  last_command :: "pystr option"
  last_response :: "pydict option"
  should_stop_background :: bool

text \<open>\<open>LalaAssistant.__init__\<close>.\<close>

definition init_assistant :: "int option \<Rightarrow> bool \<Rightarrow> pystr \<Rightarrow> assistant" where
  "init_assistant uid offline ww =
     \<lparr> user_id = uid, prefer_offline = offline, wake_word = ww,
       is_active = False, is_processing = False,
       last_command = None, last_response = None,
       should_stop_background = False \<rparr>"

subsection \<open>process_text_command\<close>

definition error_response :: pystr where
  "error_response = lit ''Lo siento, ocurri'' @ [0xF3] @ lit '' un error al procesar tu solicitud.''"

definition system_prompt :: pystr where
  "system_prompt =
     lit ''Eres Lala, un asistente de voz amable y servicial. ''
     @ lit ''Responde de forma concisa y natural.''"

definition user_prompt :: "pystr \<Rightarrow> pystr" where
  "user_prompt command_text =
     lit ''Responde al usuario que dice: '' @ [39] @ command_text @ [39]"

text \<open>
  The body of the \<open>try\<close> block, up to the result dictionary. \<open>Inl e\<close> is an exception
  raised inside it, of whatever class. \<open>text_to_speech.speak\<close> of \<open>core.py\<close> only logs
  and returns True, so it leaves no trace here.
\<close>

definition pipeline :: "services \<Rightarrow> assistant \<Rightarrow> pystr \<Rightarrow> bool \<Rightarrow> exn + pydict" where
  "pipeline sv s command_text online_available =
     (case agent_process_command sv command_text (user_id s) of
        Inl e \<Rightarrow> Inl e
      | Inr planning_result \<Rightarrow>
     (case process_ai_request sv (user_prompt command_text) system_prompt
             (if online_available then lit ''auto'' else lit ''offline'') 200 of
        Inl e \<Rightarrow> Inl e
      | Inr model_response \<Rightarrow>
     (case py_get planning_result (lit ''success'') (VBool False) of
        Inl e \<Rightarrow> Inl e
      | Inr ok \<Rightarrow>
     (case (if truthy ok then py_get planning_result (lit ''response'') (VStr [])
            else (case py_get model_response (lit ''text'') (VStr []) of
                    Inl e \<Rightarrow> Inl e
                  | Inr t \<Rightarrow> if truthy t then Inr t
                             else py_get model_response (lit ''response'') (VStr []))) of
        Inl e \<Rightarrow> Inl e
      | Inr response_text \<Rightarrow>
     (case py_get planning_result (lit ''plan'') (VDict []) of
        Inl e \<Rightarrow> Inl e
      | Inr plan \<Rightarrow>
     (case py_get model_response (lit ''model'') (VStr (lit ''offline'')) of
        Inl e \<Rightarrow> Inl e
      | Inr model_name \<Rightarrow>
          Inr [(lit ''success'', VBool True),
               (lit ''response'', response_text),
               (lit ''plan'', plan),
               (lit ''model'', model_name),
               (lit ''online'', VBool online_available)]))))))"

text \<open>
  The method sets \<open>is_processing\<close> and \<open>last_command\<close>, calls \<open>is_online()\<close> outside the
  \<open>try\<close> block, and runs the pipeline inside it. \<open>except Exception\<close> catches the
  exceptions that derive from \<open>Exception\<close>; any other exception of the pipeline, and
  any exception of \<open>is_online()\<close>, leaves the method, and the statement that resets
  \<open>is_processing\<close> after the \<open>try\<close> is not reached. The result is the dictionary
  returned (\<open>Inr\<close>) or the exception that leaves the method (\<open>Inl\<close>), and the assistant as
  the call leaves it. \<open>wait_for_response\<close> only decides whether \<open>speak\<close> is called.
\<close>

definition process_text_command ::
  "services \<Rightarrow> assistant \<Rightarrow> pystr \<Rightarrow> bool \<Rightarrow> (exn + pydict) \<times> assistant" where
  "process_text_command sv s command_text wait_for_response =
     (let s1 = s\<lparr>is_processing := True, last_command := Some command_text\<rparr> in
      case is_online sv of
        Inl e \<Rightarrow> (Inl e, s1)
      | Inr online \<Rightarrow>
          (case pipeline sv s1 command_text (online \<and> \<not> prefer_offline s1) of
             Inr result \<Rightarrow>
               (Inr result, s1\<lparr>last_response := Some result, is_processing := False\<rparr>)
           | Inl e \<Rightarrow>
               if derives_exception e then
                 (Inr [(lit ''success'', VBool False),
                       (lit ''response'', VStr error_response),
                       (lit ''error'', VStr (exc_str e))],
                  s1\<lparr>is_processing := False\<rparr>)
               else (Inl e, s1)))"

subsection \<open>set_wake_word\<close>

definition set_wake_word :: "assistant \<Rightarrow> pystr \<Rightarrow> bool \<times> assistant" where
  "set_wake_word s w =
     (if w = [] \<or> length w < 2 then (False, s)
      else (True, s\<lparr>wake_word := w\<rparr>))"

subsection \<open>String methods\<close>

text \<open>
  \<open>str.lower\<close>. On a string whose code points are all below U+0100 (Basic Latin and
  Latin-1) Python lowers code point by code point: the capitals A to Z and U+00C0 to
  U+00DE, the multiplication sign U+00D7 apart, move up by 32, and nothing else changes.
  On every other string the result is the one given by \<open>str_lower\<close>.
\<close>

definition lower_latin1 :: "nat \<Rightarrow> nat" where
  "lower_latin1 c =
     (if (0x41 \<le> c \<and> c \<le> 0x5A) \<or> (0xC0 \<le> c \<and> c \<le> 0xDE \<and> c \<noteq> 0xD7) then c + 0x20
      else c)"

definition lower :: "services \<Rightarrow> pystr \<Rightarrow> pystr" where
  "lower sv s =
     (if list_all (\<lambda>c. c < 0x100) s then map lower_latin1 s else str_lower sv s)"

text \<open>\<open>str.isspace\<close> of one code point: the white space \<open>str.strip()\<close> removes.\<close>

definition isspace :: "nat \<Rightarrow> bool" where
  "isspace c \<longleftrightarrow>
     (0x09 \<le> c \<and> c \<le> 0x0D) \<or> (0x1C \<le> c \<and> c \<le> 0x20) \<or> c = 0x85 \<or> c = 0xA0 \<or>
     c = 0x1680 \<or> (0x2000 \<le> c \<and> c \<le> 0x200A) \<or> c = 0x2028 \<or> c = 0x2029 \<or>
     c = 0x202F \<or> c = 0x205F \<or> c = 0x3000"

definition strip :: "pystr \<Rightarrow> pystr" where
  "strip s = rev (dropWhile isspace (rev (dropWhile isspace s)))"

text \<open>\<open>sub in s\<close> and \<open>s.find(sub)\<close>: the lowest index of an occurrence, or -1.\<close>

fun str_in :: "pystr \<Rightarrow> pystr \<Rightarrow> bool" where
  "str_in sub [] = (sub = [])"
| "str_in sub (c # cs) = (prefix sub (c # cs) \<or> str_in sub cs)"

fun str_find :: "pystr \<Rightarrow> pystr \<Rightarrow> int" where
  "str_find [] sub = (if sub = [] then 0 else - 1)"
| "str_find (c # cs) sub =
     (if prefix sub (c # cs) then 0
      else (let r = str_find cs sub in if r < 0 then - 1 else r + 1))"

text \<open>\<open>s[i:]\<close>: a negative index counts from the end and stops at the start.\<close>

definition slice_from :: "pystr \<Rightarrow> int \<Rightarrow> pystr" where
  "slice_from s i = (if i < 0 then drop (nat (int (length s) + i)) s else drop (nat i) s)"

subsection \<open>process_voice_command\<close>

definition no_voice_response :: pystr where
  "no_voice_response =
     lit ''No se detect'' @ [0xF3] @ lit '' ning'' @ [0xFA] @ lit ''n comando de voz.''"

text \<open>
  \<open>bridge.vibrate\<close>, \<open>bridge.show_toast\<close> and \<open>recognize_once\<close> of \<open>core.py\<close> only log
  and return. An exception that leaves \<open>process_text_command\<close> leaves this method too.
  The last statement assigns through \<open>result\<close>; when the pipeline succeeded, \<open>result\<close>
  is the very object stored in \<open>last_response\<close> (its \<open>success\<close> field tells, True only
  there), so that field sees the new key too.
\<close>

definition process_voice_command ::
  "services \<Rightarrow> assistant \<Rightarrow> int \<Rightarrow> (exn + pydict) \<times> assistant" where
  "process_voice_command sv s max_duration_sec =
     (let recognized_text = recognize_once sv max_duration_sec in
      if recognized_text = [] then
        (Inr [(lit ''success'', VBool False),
              (lit ''response'', VStr no_voice_response),
              (lit ''recognized_text'', VStr [])], s)
      else
        (let wake_word_lower = lower sv (wake_word s);
             command_text =
               (if str_in wake_word_lower (lower sv recognized_text) then
                  (let start_index =
                         str_find (lower sv recognized_text) wake_word_lower
                         + int (length wake_word_lower)
                   in strip (slice_from recognized_text start_index))
                else recognized_text)
         in case process_text_command sv s command_text True of
              (Inl e, s1) \<Rightarrow> (Inl e, s1)
            | (Inr result, s1) \<Rightarrow>
                (let result1 = dict_set result (lit ''recognized_text'') (VStr recognized_text)
                 in (Inr result1,
                     if map_of result (lit ''success'') = Some (VBool True)
                     then s1\<lparr>last_response := Some result1\<rparr> else s1))))"

subsection \<open>One turn of the background listening loop\<close>

text \<open>
  What the body of \<open>while not self.should_stop_background\<close> does in one turn: the list
  of its waits and callback calls, the exception that ends the thread if one leaves the
  \<open>try\<close> (one that does not derive from \<open>Exception\<close>), and the assistant. The assistant
  \<open>s\<close> is the one the thread finds after the wait. \<open>None\<close> is no callback; \<open>Some f\<close> is a
  callable, which returns or raises.
\<close>

datatype event = Sleep rat | Call_callback pydict | Log_error pystr

definition background_iteration ::
  "services \<Rightarrow> (pydict \<Rightarrow> exn + unit) option \<Rightarrow> assistant
     \<Rightarrow> event list \<times> exn option \<times> assistant" where
  "background_iteration sv callback s =
     (if \<not> is_processing s \<and> \<not> should_stop_background s then
        (case process_voice_command sv s 5 of
           (Inl e, s1) \<Rightarrow>
             if derives_exception e then ([Sleep 2, Log_error (exc_str e), Sleep 1], None, s1)
             else ([Sleep 2], Some e, s1)
         | (Inr result, s1) \<Rightarrow>
             (case callback of
                None \<Rightarrow> ([Sleep 2], None, s1)
              | Some f \<Rightarrow>
                  (case py_get (VDict result) (lit ''success'') (VBool False) of
                     Inl e \<Rightarrow> ([Sleep 2, Log_error (exc_str e), Sleep 1], None, s1)
                   | Inr ok \<Rightarrow>
                       if truthy ok then
                         (case f result of
                            Inr u \<Rightarrow> ([Sleep 2, Call_callback result], None, s1)
                          | Inl e \<Rightarrow>
                              if derives_exception e then
                                ([Sleep 2, Call_callback result, Log_error (exc_str e), Sleep 1],
                                 None, s1)
                              else ([Sleep 2, Call_callback result], Some e, s1))
                       else ([Sleep 2], None, s1))))
      else ([Sleep 2], None, s))"

text \<open>The callback calls of a turn, in order.\<close>

fun callback_calls :: "event list \<Rightarrow> pydict list" where
  "callback_calls [] = []"
| "callback_calls (Call_callback r # es) = r # callback_calls es"
| "callback_calls (e # es) = callback_calls es"

section \<open>VoskRecognizer\<close>

subsection \<open>More of Python\<close>








subsection \<open>The file and the third-party recognizer\<close>









subsection \<open>process_audio_file\<close>


text \<open>
  What passes between the wrapper and the recognizer object: the audio given to
  \<open>AcceptWaveform\<close> and the JSON texts returned by \<open>Result\<close> and \<open>FinalResult\<close>.
\<close>

datatype kaldi_event = Audio "nat list" | Json pystr







text \<open>The audio chunks and the JSON texts of a trace.\<close>

fun audio_fed :: "kaldi_event list \<Rightarrow> nat list list" where
  "audio_fed [] = []"
| "audio_fed (Audio a # es) = a # audio_fed es"
| "audio_fed (Json j # es) = audio_fed es"

fun json_returned :: "kaldi_event list \<Rightarrow> pystr list" where
  "json_returned [] = []"
| "json_returned (Audio a # es) = json_returned es"
| "json_returned (Json j # es) = j # json_returned es"




section \<open>The wake word as the specification words it\<close>

text \<open>
  The glossary's reading: the wake word prefixes the utterance (letter case aside).
\<close>

definition spec_wake_word_prefixes :: "services \<Rightarrow> pystr \<Rightarrow> pystr \<Rightarrow> bool" where
  "spec_wake_word_prefixes sv w t \<longleftrightarrow> prefix (lower sv w) (lower sv t)"





text \<open>A field of the dictionary a call returned; \<open>None\<close> when an exception left it.\<close>

definition returned_field :: "pystr \<Rightarrow> exn + pydict \<Rightarrow> pyval option" where
  "returned_field k out = (case out of Inl e \<Rightarrow> None | Inr d \<Rightarrow> map_of d k)"

section \<open>Sample services\<close>

text \<open>
  Concrete services on which statements are evaluated: one whose planner answers with a
  plan, one whose planner raises an \<open>Exception\<close>, and two whose planner raises an
  exception that does not derive from \<open>Exception\<close>. All use the recognizer of \<open>core.py\<close>.
  Every string they meet is below U+0100, so their \<open>str_lower\<close> is never consulted.
\<close>

definition planner_up :: services where
  "planner_up =
     \<lparr> is_online = Inr True,
       agent_process_command =
         (\<lambda>c u. Inr (VDict [(lit ''success'', VBool True),
                               (lit ''response'', VStr (lit ''Alarma configurada'')),
                               (lit ''plan'', VDict [(lit ''action'', VStr (lit ''set_alarm''))])])),
       process_ai_request =
         (\<lambda>p sp m n. Inr (VDict [(lit ''text'', VStr (lit ''Hecho'')),
                                      (lit ''model'', VStr m)])),
       recognize_once = core_recognize_once,
       str_lower = (\<lambda>t. t) \<rparr>"

definition planner_down :: services where
  "planner_down =
     planner_up\<lparr>agent_process_command :=
       (\<lambda>c u. Inl (Exc True (lit ''ConnectionError'') (lit ''planner unavailable'')))\<rparr>"

definition planner_interrupted :: services where
  "planner_interrupted =
     planner_up\<lparr>agent_process_command :=
       (\<lambda>c u. Inl (Exc False (lit ''KeyboardInterrupt'') []))\<rparr>"

definition planner_exits :: services where
  "planner_exits =
     planner_up\<lparr>agent_process_command :=
       (\<lambda>c u. Inl (Exc False (lit ''SystemExit'') (lit ''1'')))\<rparr>"

text \<open>A recognizer that hears nothing, and one that hears a fixed utterance \<open>t\<close>.\<close>

definition hears :: "pystr \<Rightarrow> services" where
  "hears t = planner_up\<lparr>recognize_once := (\<lambda>d. t)\<rparr>"









section \<open>Facts about the value layer\<close>

lemma lit_eq_iff [simp]: "lit a = lit b \<longleftrightarrow> a = b"
  unfolding lit_def by (simp add: inj_map_eq_map inj_on_def)

lemma lit_Nil [simp]: "lit [] = []"
  by (simp add: lit_def)

lemma lit_eq_Nil_iff [simp]: "lit a = [] \<longleftrightarrow> a = []"
  by (simp add: lit_def)

lemma map_of_lit_Cons [simp]:
  "map_of ((lit a, v) # d) (lit b) = (if a = b then Some v else map_of d (lit b))"
  by simp

lemma map_of_dict_set:
  "map_of (dict_set d k v) k' = (if k' = k then Some v else map_of d k')"
  by (induction d k v rule: dict_set.induct) auto

section \<open>process_text_command\<close>

lemma pipeline_Inr_shape:
  assumes "pipeline sv s c on = Inr r"
  shows "\<exists>resp plan m.
           r = [(lit ''success'', VBool True), (lit ''response'', resp), (lit ''plan'', plan),
                (lit ''model'', m), (lit ''online'', VBool on)]"
  using assms unfolding pipeline_def
  by (auto split: sum.splits if_splits)

lemma pipeline_reads_user_id:
  "pipeline sv (s\<lparr>is_processing := a, last_command := b\<rparr>) c on = pipeline sv s c on"
  by (simp add: pipeline_def)

lemma pipeline_planner_raises:
  "agent_process_command sv c (user_id s) = Inl e \<Longrightarrow> pipeline sv s c on = Inl e"
  by (simp add: pipeline_def)

lemma pipeline_ai_request_raises:
  "agent_process_command sv c (user_id s) = Inr plan \<Longrightarrow>
   process_ai_request sv (user_prompt c) system_prompt
     (if on then lit ''auto'' else lit ''offline'') 200 = Inl e \<Longrightarrow>
   pipeline sv s c on = Inl e"
  by (simp add: pipeline_def)

lemma pipeline_planner_returns_None:
  "agent_process_command sv c (user_id s) = Inr VNone \<Longrightarrow>
   process_ai_request sv (user_prompt c) system_prompt
     (if on then lit ''auto'' else lit ''offline'') 200 = Inr r \<Longrightarrow>
   pipeline sv s c on = Inl (no_attribute VNone (lit ''get''))"
  by (simp add: pipeline_def)

text \<open>The four ways a call ends.\<close>

lemma process_text_command_is_online_raises:
  assumes "is_online sv = Inl e"
  shows "process_text_command sv s c w =
           (Inl e, s\<lparr>is_processing := True, last_command := Some c\<rparr>)"
  using assms by (simp add: process_text_command_def)

lemma process_text_command_success:
  assumes "is_online sv = Inr b"
    and "pipeline sv s c (b \<and> \<not> prefer_offline s) = Inr r"
  shows "process_text_command sv s c w =
           (Inr r, s\<lparr>is_processing := False, last_command := Some c, last_response := Some r\<rparr>)"
  using assms by (simp add: process_text_command_def pipeline_reads_user_id)

lemma process_text_command_caught:
  assumes "is_online sv = Inr b"
    and "pipeline sv s c (b \<and> \<not> prefer_offline s) = Inl e"
    and "derives_exception e"
  shows "process_text_command sv s c w =
           (Inr [(lit ''success'', VBool False), (lit ''response'', VStr error_response),
                 (lit ''error'', VStr (exc_str e))],
            s\<lparr>is_processing := False, last_command := Some c\<rparr>)"
  using assms by (simp add: process_text_command_def pipeline_reads_user_id)

lemma process_text_command_not_caught:
  assumes "is_online sv = Inr b"
    and "pipeline sv s c (b \<and> \<not> prefer_offline s) = Inl e"
    and "\<not> derives_exception e"
  shows "process_text_command sv s c w =
           (Inl e, s\<lparr>is_processing := True, last_command := Some c\<rparr>)"
  using assms by (simp add: process_text_command_def pipeline_reads_user_id)

lemma process_text_command_cases:
  obtains (is_online_raises) e where "is_online sv = Inl e"
      "process_text_command sv s c w = (Inl e, s\<lparr>is_processing := True, last_command := Some c\<rparr>)"
  | (success) b r where "is_online sv = Inr b"
      "pipeline sv s c (b \<and> \<not> prefer_offline s) = Inr r"
      "process_text_command sv s c w =
         (Inr r, s\<lparr>is_processing := False, last_command := Some c, last_response := Some r\<rparr>)"
  | (caught) b e where "is_online sv = Inr b"
      "pipeline sv s c (b \<and> \<not> prefer_offline s) = Inl e" "derives_exception e"
      "process_text_command sv s c w =
         (Inr [(lit ''success'', VBool False), (lit ''response'', VStr error_response),
               (lit ''error'', VStr (exc_str e))],
          s\<lparr>is_processing := False, last_command := Some c\<rparr>)"
  | (not_caught) b e where "is_online sv = Inr b"
      "pipeline sv s c (b \<and> \<not> prefer_offline s) = Inl e" "\<not> derives_exception e"
      "process_text_command sv s c w = (Inl e, s\<lparr>is_processing := True, last_command := Some c\<rparr>)"
proof (cases "is_online sv")
  case (Inl e)
  then show ?thesis
    using is_online_raises process_text_command_is_online_raises by blast
next
  case (Inr b)
  show ?thesis
  proof (cases "pipeline sv s c (b \<and> \<not> prefer_offline s)")
    case (Inr r)
    with \<open>is_online sv = Inr b\<close> show ?thesis
      using success process_text_command_success by blast
  next
    case (Inl e)
    with \<open>is_online sv = Inr b\<close> show ?thesis
      using caught not_caught process_text_command_caught process_text_command_not_caught
      by (cases "derives_exception e") blast+
  qed
qed

lemma process_text_command_last_command:
  "last_command (snd (process_text_command sv s c w)) = Some c"
  by (cases rule: process_text_command_cases [of sv s c w]) simp_all

lemma process_text_command_success_field:
  assumes "fst (process_text_command sv s c w) = Inr d"
  shows "\<exists>b. map_of d (lit ''success'') = Some (VBool b)"
proof (cases rule: process_text_command_cases [of sv s c w])
  case (success b r)
  with assms pipeline_Inr_shape [OF success(2)]
  have "map_of d (lit ''success'') = Some (VBool True)" by auto
  then show ?thesis by blast
next
  case (caught b e)
  with assms have "map_of d (lit ''success'') = Some (VBool False)" by auto
  then show ?thesis by blast
qed (use assms in simp_all)

text \<open>
  C1, as stated, fails: when the planner is interrupted from the keyboard, the exception
  is not one \<open>except Exception\<close> catches, and the call returns no dictionary.
\<close>

theorem process_text_command_interrupted_returns_nothing:
  "fst (process_text_command planner_interrupted (init_assistant None False (lit ''Lala''))
          (lit ''hola'') True)
     = Inl (Exc False (lit ''KeyboardInterrupt'') [])"
  by (simp add: process_text_command_def pipeline_def planner_interrupted_def planner_up_def
      init_assistant_def)

text \<open>
  C1, amended. Whenever \<open>process_text_command\<close> returns, the dictionary it returns has
  the keys \<open>success\<close> and \<open>response\<close>. After every call, also one that an exception
  leaves, \<open>last_command\<close> is the command text. The call returns exactly when
  \<open>is_online()\<close> returns and every exception the pipeline raises derives from
  \<open>Exception\<close>.
\<close>

theorem process_text_command_keys_and_last_command:
  "(\<forall>d. fst (process_text_command sv s c w) = Inr d \<longrightarrow>
       lit ''success'' \<in> set (dict_keys d) \<and> lit ''response'' \<in> set (dict_keys d)) \<and>
   last_command (snd (process_text_command sv s c w)) = Some c \<and>
   ((\<exists>d. fst (process_text_command sv s c w) = Inr d) \<longleftrightarrow>
    (\<exists>b. is_online sv = Inr b \<and>
         (\<forall>e. pipeline sv s c (b \<and> \<not> prefer_offline s) = Inl e \<longrightarrow> derives_exception e)))"
proof (cases rule: process_text_command_cases [of sv s c w])
  case (is_online_raises e)
  then show ?thesis by simp
next
  case (success b r)
  from pipeline_Inr_shape [OF success(2)] obtain resp plan m where
    "r = [(lit ''success'', VBool True), (lit ''response'', resp), (lit ''plan'', plan),
          (lit ''model'', m), (lit ''online'', VBool (b \<and> \<not> prefer_offline s))]"
    by blast
  with success show ?thesis by (simp add: dict_keys_def)
next
  case (caught b e)
  then show ?thesis by (simp add: dict_keys_def)
next
  case (not_caught b e)
  then show ?thesis by auto
qed

theorem process_text_command_keys_and_last_command_witness:
  "is_online planner_up = Inr True \<and>
   returned_field (lit ''success'')
     (fst (process_text_command planner_up (init_assistant None False (lit ''Lala''))
             (lit ''hola'') True)) = Some (VBool True) \<and>
   last_command (snd (process_text_command planner_up (init_assistant None False (lit ''Lala''))
                        (lit ''hola'') True)) = Some (lit ''hola'')"
proof -
  have "returned_field (lit ''success'')
     (fst (process_text_command planner_up (init_assistant None False (lit ''Lala''))
             (lit ''hola'') True)) = Some (VBool True)"
    by (simp add: returned_field_def process_text_command_def pipeline_def planner_up_def
        init_assistant_def)
  moreover have "is_online planner_up = Inr True"
    by (simp add: planner_up_def)
  ultimately show ?thesis
    using process_text_command_keys_and_last_command
            [of planner_up "init_assistant None False (lit ''Lala'')" "lit ''hola''" True]
    by simp
qed

text \<open>
  C7, as stated, fails: a planner that raises \<open>SystemExit\<close> raises inside the pipeline,
  and the exception reaches the caller.
\<close>

theorem process_text_command_system_exit_propagates:
  "pipeline planner_exits (init_assistant None False (lit ''Lala'')) (lit ''hola'') True
     = Inl (Exc False (lit ''SystemExit'') (lit ''1'')) \<and>
   fst (process_text_command planner_exits (init_assistant None False (lit ''Lala''))
          (lit ''hola'') True)
     = Inl (Exc False (lit ''SystemExit'') (lit ''1''))"
  by (simp add: process_text_command_def pipeline_def planner_exits_def planner_up_def
      init_assistant_def)

text \<open>
  C7, amended. When the pipeline raises an exception that derives from \<open>Exception\<close>, the
  method catches it and returns a dictionary whose \<open>success\<close> is False and whose \<open>error\<close>
  is \<open>str(e)\<close>. An exception of the pipeline that does not derive from \<open>Exception\<close>
  (\<open>SystemExit\<close>, \<open>KeyboardInterrupt\<close>, \<open>GeneratorExit\<close>) is not caught and reaches the
  caller.
\<close>

theorem process_text_command_catches:
  assumes "is_online sv = Inr b"
    and "pipeline sv s c (b \<and> \<not> prefer_offline s) = Inl e"
  shows "(derives_exception e \<longrightarrow>
            fst (process_text_command sv s c w)
              = Inr [(lit ''success'', VBool False), (lit ''response'', VStr error_response),
                     (lit ''error'', VStr (exc_str e))] \<and>
            returned_field (lit ''success'') (fst (process_text_command sv s c w))
              = Some (VBool False) \<and>
            returned_field (lit ''error'') (fst (process_text_command sv s c w))
              = Some (VStr (exc_str e))) \<and>
         (\<not> derives_exception e \<longrightarrow> fst (process_text_command sv s c w) = Inl e)"
  using assms
  by (simp add: process_text_command_caught process_text_command_not_caught returned_field_def)

theorem process_text_command_catches_witness:
  "is_online planner_down = Inr True \<and>
   pipeline planner_down (init_assistant None False (lit ''Lala'')) (lit ''hola'')
      (True \<and> \<not> prefer_offline (init_assistant None False (lit ''Lala'')))
     = Inl (Exc True (lit ''ConnectionError'') (lit ''planner unavailable'')) \<and>
   returned_field (lit ''success'')
     (fst (process_text_command planner_down (init_assistant None False (lit ''Lala''))
             (lit ''hola'') True)) = Some (VBool False) \<and>
   returned_field (lit ''error'')
     (fst (process_text_command planner_down (init_assistant None False (lit ''Lala''))
             (lit ''hola'') True)) = Some (VStr (lit ''planner unavailable''))"
proof -
  have online: "is_online planner_down = Inr True"
    by (simp add: planner_down_def planner_up_def)
  have raised:
    "pipeline planner_down (init_assistant None False (lit ''Lala'')) (lit ''hola'')
        (True \<and> \<not> prefer_offline (init_assistant None False (lit ''Lala'')))
       = Inl (Exc True (lit ''ConnectionError'') (lit ''planner unavailable''))"
    by (simp add: pipeline_def planner_down_def planner_up_def)
  have derived: "derives_exception (Exc True (lit ''ConnectionError'') (lit ''planner unavailable''))"
    and str: "exc_str (Exc True (lit ''ConnectionError'') (lit ''planner unavailable''))
                = lit ''planner unavailable''"
    by simp_all
  from process_text_command_catches [OF online raised, of True] derived
  have "returned_field (lit ''success'')
          (fst (process_text_command planner_down (init_assistant None False (lit ''Lala''))
             (lit ''hola'') True)) = Some (VBool False)"
    and "returned_field (lit ''error'')
          (fst (process_text_command planner_down (init_assistant None False (lit ''Lala''))
             (lit ''hola'') True))
           = Some (VStr (exc_str (Exc True (lit ''ConnectionError'') (lit ''planner unavailable''))))"
    by blast+
  with online raised show ?thesis
    unfolding str by blast
qed

text \<open>
  C10, as stated, fails: after a call that the planner's \<open>SystemExit\<close> leaves,
  \<open>is_processing\<close> is True, though it was False before the call.
\<close>

theorem process_text_command_leaves_is_processing_set:
  "is_processing (init_assistant None False (lit ''Lala'')) = False \<and>
   is_processing (snd (process_text_command planner_exits
                         (init_assistant None False (lit ''Lala'')) (lit ''hola'') True)) = True"
  by (simp add: process_text_command_def pipeline_def planner_exits_def planner_up_def
      init_assistant_def)

text \<open>
  C10, amended. Every call that returns leaves \<open>is_processing\<close> False, on the success
  path and on the path where an exception was caught. When the pipeline succeeded,
  \<open>last_response\<close> is the returned dictionary; when an exception was caught,
  \<open>last_response\<close> is what it was before the call.
\<close>

theorem process_text_command_flags:
  "(\<forall>d. fst (process_text_command sv s c w) = Inr d \<longrightarrow>
       is_processing (snd (process_text_command sv s c w)) = False) \<and>
   (\<forall>b r. is_online sv = Inr b \<and> pipeline sv s c (b \<and> \<not> prefer_offline s) = Inr r \<longrightarrow>
       fst (process_text_command sv s c w) = Inr r \<and>
       last_response (snd (process_text_command sv s c w)) = Some r) \<and>
   (\<forall>b e. is_online sv = Inr b \<and> pipeline sv s c (b \<and> \<not> prefer_offline s) = Inl e \<and>
          derives_exception e \<longrightarrow>
       (\<exists>d. fst (process_text_command sv s c w) = Inr d) \<and>
       last_response (snd (process_text_command sv s c w)) = last_response s)"
proof -
  have returned: "is_processing (snd (process_text_command sv s c w)) = False"
    if "fst (process_text_command sv s c w) = Inr d" for d
    using that by (cases rule: process_text_command_cases [of sv s c w]) simp_all
  have succeeded: "fst (process_text_command sv s c w) = Inr r \<and>
       last_response (snd (process_text_command sv s c w)) = Some r"
    if "is_online sv = Inr b" "pipeline sv s c (b \<and> \<not> prefer_offline s) = Inr r" for b r
    using that by (simp add: process_text_command_success)
  have caught: "(\<exists>d. fst (process_text_command sv s c w) = Inr d) \<and>
       last_response (snd (process_text_command sv s c w)) = last_response s"
    if "is_online sv = Inr b" "pipeline sv s c (b \<and> \<not> prefer_offline s) = Inl e"
       "derives_exception e" for b e
    using that by (simp add: process_text_command_caught)
  from returned succeeded caught show ?thesis by blast
qed

theorem process_text_command_flags_witness:
  "is_processing (snd (process_text_command planner_up
                         (init_assistant None False (lit ''Lala'')) (lit ''hola'') True)) = False \<and>
   last_response (snd (process_text_command planner_up
                         (init_assistant None False (lit ''Lala'')) (lit ''hola'') True))
     = Some [(lit ''success'', VBool True), (lit ''response'', VStr (lit ''Alarma configurada'')),
             (lit ''plan'', VDict [(lit ''action'', VStr (lit ''set_alarm''))]),
             (lit ''model'', VStr (lit ''auto'')), (lit ''online'', VBool True)] \<and>
   is_processing (snd (process_text_command planner_down
                         (init_assistant None False (lit ''Lala'')) (lit ''hola'') True)) = False \<and>
   last_response (snd (process_text_command planner_down
                         (init_assistant None False (lit ''Lala'')) (lit ''hola'') True))
     = last_response (init_assistant None False (lit ''Lala''))"
proof -
  have up: "is_online planner_up = Inr True"
    by (simp add: planner_up_def)
  have ran: "pipeline planner_up (init_assistant None False (lit ''Lala'')) (lit ''hola'')
        (True \<and> \<not> prefer_offline (init_assistant None False (lit ''Lala'')))
       = Inr [(lit ''success'', VBool True), (lit ''response'', VStr (lit ''Alarma configurada'')),
             (lit ''plan'', VDict [(lit ''action'', VStr (lit ''set_alarm''))]),
             (lit ''model'', VStr (lit ''auto'')), (lit ''online'', VBool True)]"
    by (simp add: pipeline_def planner_up_def init_assistant_def)
  have down: "is_online planner_down = Inr True"
    by (simp add: planner_down_def planner_up_def)
  have raised: "pipeline planner_down (init_assistant None False (lit ''Lala'')) (lit ''hola'')
        (True \<and> \<not> prefer_offline (init_assistant None False (lit ''Lala'')))
       = Inl (Exc True (lit ''ConnectionError'') (lit ''planner unavailable''))"
    by (simp add: pipeline_def planner_down_def planner_up_def)
  have derived: "derives_exception (Exc True (lit ''ConnectionError'') (lit ''planner unavailable''))"
    by simp
  note on_up = process_text_command_flags
         [of planner_up "init_assistant None False (lit ''Lala'')" "lit ''hola''" True]
  note on_down = process_text_command_flags
         [of planner_down "init_assistant None False (lit ''Lala'')" "lit ''hola''" True]
  from on_up up ran
  have b: "fst (process_text_command planner_up
                  (init_assistant None False (lit ''Lala'')) (lit ''hola'') True)
             = Inr [(lit ''success'', VBool True), (lit ''response'', VStr (lit ''Alarma configurada'')),
                    (lit ''plan'', VDict [(lit ''action'', VStr (lit ''set_alarm''))]),
                    (lit ''model'', VStr (lit ''auto'')), (lit ''online'', VBool True)] \<and>
           last_response (snd (process_text_command planner_up
                         (init_assistant None False (lit ''Lala'')) (lit ''hola'') True))
             = Some [(lit ''success'', VBool True), (lit ''response'', VStr (lit ''Alarma configurada'')),
                     (lit ''plan'', VDict [(lit ''action'', VStr (lit ''set_alarm''))]),
                     (lit ''model'', VStr (lit ''auto'')), (lit ''online'', VBool True)]"
    by blast
  with on_up
  have a: "is_processing (snd (process_text_command planner_up
                         (init_assistant None False (lit ''Lala'')) (lit ''hola'') True)) = False"
    by blast
  from on_down down raised derived
  have d: "(\<exists>d. fst (process_text_command planner_down
                  (init_assistant None False (lit ''Lala'')) (lit ''hola'') True) = Inr d) \<and>
           last_response (snd (process_text_command planner_down
                         (init_assistant None False (lit ''Lala'')) (lit ''hola'') True))
              = last_response (init_assistant None False (lit ''Lala''))"
    by blast
  with on_down
  have c: "is_processing (snd (process_text_command planner_down
                         (init_assistant None False (lit ''Lala'')) (lit ''hola'') True)) = False"
    by blast
  from a b c d show ?thesis by blast
qed

section \<open>set_wake_word\<close>

text \<open>
  C3. A wake word that is empty or shorter than two characters is rejected: the call
  returns False and leaves the assistant, its wake word included, as it was. A wake word
  of two characters or more is accepted: the call returns True and the wake word is the
  new one.
\<close>

theorem set_wake_word_short_rejected:
  "(w = [] \<or> length w < 2 \<longrightarrow>
      fst (set_wake_word s w) = False \<and> snd (set_wake_word s w) = s \<and>
      wake_word (snd (set_wake_word s w)) = wake_word s) \<and>
   (2 \<le> length w \<longrightarrow>
      fst (set_wake_word s w) = True \<and> wake_word (snd (set_wake_word s w)) = w)"
  by (auto simp: set_wake_word_def)

theorem set_wake_word_short_rejected_witness:
  "length (lit ''L'') < 2 \<and>
   fst (set_wake_word (init_assistant None False (lit ''Lala'')) (lit ''L'')) = False \<and>
   wake_word (snd (set_wake_word (init_assistant None False (lit ''Lala'')) (lit ''L'')))
     = lit ''Lala'' \<and>
   2 \<le> length (lit ''Hola'') \<and>
   fst (set_wake_word (init_assistant None False (lit ''Lala'')) (lit ''Hola'')) = True \<and>
   wake_word (snd (set_wake_word (init_assistant None False (lit ''Lala'')) (lit ''Hola'')))
     = lit ''Hola''"
  using set_wake_word_short_rejected [of "lit ''L''" "init_assistant None False (lit ''Lala'')"]
        set_wake_word_short_rejected [of "lit ''Hola''" "init_assistant None False (lit ''Lala'')"]
  by (simp add: lit_def init_assistant_def)

section \<open>process_voice_command\<close>

lemma text_command_then_recognized_text:
  "last_command
     (snd (case process_text_command sv s c True of
             (Inl e, s1) \<Rightarrow> (Inl e, s1)
           | (Inr result, s1) \<Rightarrow>
               (let result1 = dict_set result (lit ''recognized_text'') (VStr t)
                in (Inr result1,
                    if map_of result (lit ''success'') = Some (VBool True)
                    then s1\<lparr>last_response := Some result1\<rparr> else s1)))) = Some c"
  "fst (case process_text_command sv s c True of
          (Inl e, s1) \<Rightarrow> (Inl e, s1)
        | (Inr result, s1) \<Rightarrow>
            (let result1 = dict_set result (lit ''recognized_text'') (VStr t)
             in (Inr result1,
                 if map_of result (lit ''success'') = Some (VBool True)
                 then s1\<lparr>last_response := Some result1\<rparr> else s1)))
     = map_sum id (\<lambda>r. dict_set r (lit ''recognized_text'') (VStr t))
         (fst (process_text_command sv s c True))"
proof -
  obtain out s1 where run: "process_text_command sv s c True = (out, s1)"
    by (cases "process_text_command sv s c True")
  from process_text_command_last_command [of sv s c True] run
  have s1: "last_command s1 = Some c" by simp
  show "last_command
     (snd (case process_text_command sv s c True of
             (Inl e, s1) \<Rightarrow> (Inl e, s1)
           | (Inr result, s1) \<Rightarrow>
               (let result1 = dict_set result (lit ''recognized_text'') (VStr t)
                in (Inr result1,
                    if map_of result (lit ''success'') = Some (VBool True)
                    then s1\<lparr>last_response := Some result1\<rparr> else s1)))) = Some c"
    using run s1 by (cases out) (simp_all add: Let_def)
  show "fst (case process_text_command sv s c True of
          (Inl e, s1) \<Rightarrow> (Inl e, s1)
        | (Inr result, s1) \<Rightarrow>
            (let result1 = dict_set result (lit ''recognized_text'') (VStr t)
             in (Inr result1,
                 if map_of result (lit ''success'') = Some (VBool True)
                 then s1\<lparr>last_response := Some result1\<rparr> else s1)))
     = map_sum id (\<lambda>r. dict_set r (lit ''recognized_text'') (VStr t))
         (fst (process_text_command sv s c True))"
    using run by (cases out) (simp_all add: Let_def)
qed

lemma process_voice_command_heard:
  assumes "recognize_once sv d \<noteq> []"
  shows "process_voice_command sv s d =
     (case process_text_command sv s
             (if str_in (lower sv (wake_word s)) (lower sv (recognize_once sv d))
              then strip (slice_from (recognize_once sv d)
                     (str_find (lower sv (recognize_once sv d)) (lower sv (wake_word s))
                      + int (length (lower sv (wake_word s)))))
              else recognize_once sv d) True of
        (Inl e, s1) \<Rightarrow> (Inl e, s1)
      | (Inr result, s1) \<Rightarrow>
          (let result1 = dict_set result (lit ''recognized_text'') (VStr (recognize_once sv d))
           in (Inr result1,
               if map_of result (lit ''success'') = Some (VBool True)
               then s1\<lparr>last_response := Some result1\<rparr> else s1)))"
proof -
  have "process_voice_command sv s d =
     (let recognized_text = recognize_once sv d;
          wake_word_lower = lower sv (wake_word s);
          command_text =
            (if str_in wake_word_lower (lower sv recognized_text) then
               (let start_index = str_find (lower sv recognized_text) wake_word_lower
                                  + int (length wake_word_lower)
                in strip (slice_from recognized_text start_index))
             else recognized_text)
      in case process_text_command sv s command_text True of
           (Inl e, s1) \<Rightarrow> (Inl e, s1)
         | (Inr result, s1) \<Rightarrow>
             (let result1 = dict_set result (lit ''recognized_text'') (VStr recognized_text)
              in (Inr result1,
                  if map_of result (lit ''success'') = Some (VBool True)
                  then s1\<lparr>last_response := Some result1\<rparr> else s1)))"
    unfolding process_voice_command_def using assms by (simp only: Let_def if_False)
  then show ?thesis by (simp only: Let_def)
qed

lemma process_voice_command_runs_text_command:
  assumes "recognize_once sv d \<noteq> []"
  shows "last_command (snd (process_voice_command sv s d)) =
           Some (if str_in (lower sv (wake_word s)) (lower sv (recognize_once sv d))
                 then strip (slice_from (recognize_once sv d)
                        (str_find (lower sv (recognize_once sv d)) (lower sv (wake_word s))
                         + int (length (lower sv (wake_word s)))))
                 else recognize_once sv d)"
    and "fst (process_voice_command sv s d) =
           map_sum id (\<lambda>r. dict_set r (lit ''recognized_text'') (VStr (recognize_once sv d)))
             (fst (process_text_command sv s
                (if str_in (lower sv (wake_word s)) (lower sv (recognize_once sv d))
                 then strip (slice_from (recognize_once sv d)
                        (str_find (lower sv (recognize_once sv d)) (lower sv (wake_word s))
                         + int (length (lower sv (wake_word s)))))
                 else recognize_once sv d) True))"
  by (simp_all only: process_voice_command_heard [OF assms] text_command_then_recognized_text)

lemma process_voice_command_success_field:
  assumes "fst (process_voice_command sv s d) = Inr r"
  shows "\<exists>b. map_of r (lit ''success'') = Some (VBool b)"
proof (cases "recognize_once sv d = []")
  case True
  with assms have "map_of r (lit ''success'') = Some (VBool False)"
    by (auto simp: process_voice_command_def)
  then show ?thesis by blast
next
  case False
  from process_voice_command_runs_text_command(2) [OF False, of s] assms
  obtain r0 c where "fst (process_text_command sv s c True) = Inr r0"
    and "r = dict_set r0 (lit ''recognized_text'') (VStr (recognize_once sv d))"
    by (auto simp: map_sum_def split: sum.splits)
  with process_text_command_success_field [of sv s c True r0] show ?thesis
    by (simp add: map_of_dict_set)
qed

text \<open>
  C9. When the recognizer returns the empty string, \<open>process_voice_command\<close> returns a
  dictionary with \<open>success\<close> False, \<open>recognized_text\<close> empty and a non-empty \<open>response\<close>,
  and the assistant is left as it was: \<open>process_text_command\<close>, which always sets
  \<open>last_command\<close>, was not run, so \<open>last_command\<close> and \<open>last_response\<close> are unchanged.
\<close>

theorem process_voice_command_nothing_heard:
  assumes "recognize_once sv d = []"
  shows "fst (process_voice_command sv s d)
           = Inr [(lit ''success'', VBool False), (lit ''response'', VStr no_voice_response),
                  (lit ''recognized_text'', VStr [])] \<and>
         returned_field (lit ''success'') (fst (process_voice_command sv s d))
           = Some (VBool False) \<and>
         returned_field (lit ''recognized_text'') (fst (process_voice_command sv s d))
           = Some (VStr []) \<and>
         returned_field (lit ''response'') (fst (process_voice_command sv s d))
           = Some (VStr no_voice_response) \<and>
         no_voice_response \<noteq> [] \<and>
         snd (process_voice_command sv s d) = s \<and>
         last_command (snd (process_voice_command sv s d)) = last_command s \<and>
         last_response (snd (process_voice_command sv s d)) = last_response s"
  using assms
  by (simp add: process_voice_command_def no_voice_response_def returned_field_def)

theorem process_voice_command_nothing_heard_witness:
  "recognize_once (hears []) 5 = [] \<and>
   returned_field (lit ''success'')
     (fst (process_voice_command (hears []) (init_assistant None False (lit ''Lala'')) 5))
     = Some (VBool False) \<and>
   last_command (snd (process_voice_command (hears []) (init_assistant None False (lit ''Lala'')) 5))
     = None"
proof -
  have silent: "recognize_once (hears []) 5 = []"
    by (simp add: hears_def)
  note heard_nothing =
    process_voice_command_nothing_heard [OF silent, of "init_assistant None False (lit ''Lala'')"]
  from heard_nothing have
    "returned_field (lit ''success'')
       (fst (process_voice_command (hears []) (init_assistant None False (lit ''Lala'')) 5))
       = Some (VBool False)"
    by blast
  moreover from heard_nothing have
    "last_command (snd (process_voice_command (hears [])
                          (init_assistant None False (lit ''Lala'')) 5))
       = last_command (init_assistant None False (lit ''Lala''))"
    by blast
  moreover have "last_command (init_assistant None False (lit ''Lala'')) = None"
    by (simp add: init_assistant_def)
  ultimately show ?thesis using silent by simp
qed

subsection \<open>Where \<open>find\<close> finds\<close>

lemma str_find_ge: "- 1 \<le> str_find s sub"
  by (induction s sub rule: str_find.induct) (auto simp: Let_def)


lemma str_find_first_occurrence:
  "str_in sub s \<Longrightarrow>
   \<exists>p q. s = p @ sub @ q \<and> str_find s sub = int (length p) \<and>
         (\<forall>p' q'. s = p' @ sub @ q' \<longrightarrow> length p \<le> length p')"
proof (induction s)
  case Nil
  then have "[] = [] @ sub @ [] \<and> str_find [] sub = int (length ([] :: nat list)) \<and>
             (\<forall>p' q'. [] = p' @ sub @ q' \<longrightarrow> length ([] :: nat list) \<le> length p')"
    by simp
  then show ?case by blast
next
  case (Cons c cs)
  show ?case
  proof (cases "prefix sub (c # cs)")
    case True
    then obtain q where q: "c # cs = sub @ q" by (auto simp: prefix_def)
    from True have "str_find (c # cs) sub = 0" by simp
    with q have "c # cs = [] @ sub @ q \<and> str_find (c # cs) sub = int (length ([] :: nat list)) \<and>
             (\<forall>p' q'. c # cs = p' @ sub @ q' \<longrightarrow> length ([] :: nat list) \<le> length p')"
      by simp
    then show ?thesis by blast
  next
    case False
    with Cons.prems have "str_in sub cs" by simp
    from Cons.IH [OF this] obtain p q where pq: "cs = p @ sub @ q"
      and at: "str_find cs sub = int (length p)"
      and least: "\<forall>p' q'. cs = p' @ sub @ q' \<longrightarrow> length p \<le> length p'"
      by blast
    have first: "length (c # p) \<le> length p'" if "c # cs = p' @ sub @ q'" for p' q'
    proof (cases p')
      case Nil
      with that False show ?thesis by (simp add: prefix_def)
    next
      case (Cons a p'')
      with that have "cs = p'' @ sub @ q'" by simp
      with least have "length p \<le> length p''" by blast
      with Cons show ?thesis by simp
    qed
    from False at have "str_find (c # cs) sub = int (length (c # p))"
      by (simp add: Let_def)
    moreover from pq have "c # cs = (c # p) @ sub @ q" by simp
    ultimately have "c # cs = (c # p) @ sub @ q \<and> str_find (c # cs) sub = int (length (c # p)) \<and>
             (\<forall>p' q'. c # cs = p' @ sub @ q' \<longrightarrow> length (c # p) \<le> length p')"
      using first by blast
    then show ?thesis by blast
  qed
qed

text \<open>
  C5, as the glossary states it, fails: with the wake word \<open>Hola\<close> the utterance of
  \<open>core.py\<close>'s recognizer does not begin with the wake word (it does not even contain
  it), and still the whole utterance is processed as a command, successfully.
\<close>

theorem utterance_without_wake_word_is_processed:
  "\<not> spec_wake_word_prefixes planner_up (lit ''Hola'') (recognize_once planner_up 5) \<and>
   last_command (init_assistant None False (lit ''Hola'')) = None \<and>
   last_command (snd (process_voice_command planner_up (init_assistant None False (lit ''Hola'')) 5))
     = Some (lit ''lala pon una alarma para las 8 de la ma'' @ [0xF1] @ lit ''ana'') \<and>
   returned_field (lit ''success'')
     (fst (process_voice_command planner_up (init_assistant None False (lit ''Hola'')) 5))
     = Some (VBool True)"
proof -
  have heard: "recognize_once planner_up 5 \<noteq> []"
    by (simp add: planner_up_def core_recognize_once_def)
  have "\<not> spec_wake_word_prefixes planner_up (lit ''Hola'') (recognize_once planner_up 5)"
    by (simp add: spec_wake_word_prefixes_def planner_up_def lower_def lower_latin1_def
        core_recognize_once_def lit_def)
  moreover have "last_command (init_assistant None False (lit ''Hola'')) = None"
    by (simp add: init_assistant_def)
  moreover have
    "last_command (snd (process_voice_command planner_up (init_assistant None False (lit ''Hola'')) 5))
       = Some (lit ''lala pon una alarma para las 8 de la ma'' @ [0xF1] @ lit ''ana'')"
  proof -
    have absent: "\<not> str_in (lower planner_up (wake_word (init_assistant None False (lit ''Hola''))))
                     (lower planner_up (recognize_once planner_up 5))"
      by (simp add: planner_up_def init_assistant_def lower_def lower_latin1_def
          core_recognize_once_def lit_def)
    have utterance: "recognize_once planner_up 5
                       = lit ''lala pon una alarma para las 8 de la ma'' @ [0xF1] @ lit ''ana''"
      by (simp add: planner_up_def core_recognize_once_def)
    from process_voice_command_runs_text_command(1)
           [OF heard, of "init_assistant None False (lit ''Hola'')"]
    have "last_command (snd (process_voice_command planner_up
                               (init_assistant None False (lit ''Hola'')) 5))
            = Some (recognize_once planner_up 5)"
      by (simp only: absent if_False)
    then show ?thesis by (simp only: utterance)
  qed
  moreover have
    "returned_field (lit ''success'')
       (fst (process_voice_command planner_up (init_assistant None False (lit ''Hola'')) 5))
       = Some (VBool True)"
    by (simp add: returned_field_def process_voice_command_def process_text_command_def
        pipeline_def Let_def map_of_dict_set planner_up_def init_assistant_def
        core_recognize_once_def lower_def lower_latin1_def)
  ultimately show ?thesis by blast
qed

text \<open>
  C5, amended. Every non-empty utterance is processed as a text command, whether or not
  it begins with the wake word: \<open>process_text_command\<close> is run on a command \<open>cmd\<close> taken
  from the utterance, and what it returns is returned with \<open>recognized_text\<close> added.
  When the lowercased utterance does not contain the lowercased wake word, \<open>cmd\<close> is the
  whole utterance. When it does, let \<open>p\<close> be what stands before the first occurrence of
  the lowercased wake word in the lowercased utterance: \<open>cmd\<close> is the utterance without
  its first \<open>len(p) + len(lowercased wake word)\<close> characters, trimmed.
\<close>

theorem process_voice_command_processes_every_utterance:
  assumes "recognize_once sv d \<noteq> []"
  shows "\<exists>cmd.
           last_command (snd (process_voice_command sv s d)) = Some cmd \<and>
           fst (process_voice_command sv s d) =
             map_sum id (\<lambda>r. dict_set r (lit ''recognized_text'') (VStr (recognize_once sv d)))
               (fst (process_text_command sv s cmd True)) \<and>
           (\<not> str_in (lower sv (wake_word s)) (lower sv (recognize_once sv d)) \<longrightarrow>
              cmd = recognize_once sv d) \<and>
           (str_in (lower sv (wake_word s)) (lower sv (recognize_once sv d)) \<longrightarrow>
              (\<exists>p q. lower sv (recognize_once sv d) = p @ lower sv (wake_word s) @ q \<and>
                     (\<forall>p' q'. lower sv (recognize_once sv d) = p' @ lower sv (wake_word s) @ q'
                        \<longrightarrow> length p \<le> length p') \<and>
                     cmd = strip (drop (length p + length (lower sv (wake_word s)))
                                   (recognize_once sv d))))"
proof (cases "str_in (lower sv (wake_word s)) (lower sv (recognize_once sv d))")
  case False
  with process_voice_command_runs_text_command [OF assms, of s] show ?thesis
    by (intro exI [of _ "recognize_once sv d"]) simp
next
  case True
  from str_find_first_occurrence [OF True] obtain p q where
    pq: "lower sv (recognize_once sv d) = p @ lower sv (wake_word s) @ q"
    and at: "str_find (lower sv (recognize_once sv d)) (lower sv (wake_word s)) = int (length p)"
    and least: "\<forall>p' q'. lower sv (recognize_once sv d) = p' @ lower sv (wake_word s) @ q'
                 \<longrightarrow> length p \<le> length p'"
    by blast
  have cut: "slice_from (recognize_once sv d)
               (str_find (lower sv (recognize_once sv d)) (lower sv (wake_word s))
                + int (length (lower sv (wake_word s))))
             = drop (length p + length (lower sv (wake_word s))) (recognize_once sv d)"
    by (simp add: at slice_from_def nat_add_distrib)
  from process_voice_command_runs_text_command [OF assms, of s] True
  have "last_command (snd (process_voice_command sv s d))
          = Some (strip (drop (length p + length (lower sv (wake_word s))) (recognize_once sv d)))"
    and "fst (process_voice_command sv s d) =
           map_sum id (\<lambda>r. dict_set r (lit ''recognized_text'') (VStr (recognize_once sv d)))
             (fst (process_text_command sv s
                (strip (drop (length p + length (lower sv (wake_word s))) (recognize_once sv d)))
                True))"
    unfolding cut [symmetric] by simp_all
  with True pq least show ?thesis
    by (intro exI [of _ "strip (drop (length p + length (lower sv (wake_word s)))
                           (recognize_once sv d))"]) blast
qed

theorem process_voice_command_processes_every_utterance_witness:
  "recognize_once planner_up 5 \<noteq> [] \<and>
   str_in (lower planner_up (lit ''alarma'')) (lower planner_up (recognize_once planner_up 5)) \<and>
   last_command (snd (process_voice_command planner_up (init_assistant None False (lit ''alarma'')) 5))
     = Some (lit ''para las 8 de la ma'' @ [0xF1] @ lit ''ana'')"
proof -
  have heard: "recognize_once planner_up 5 \<noteq> []"
    by (simp add: planner_up_def core_recognize_once_def)
  have found: "str_in (lower planner_up (lit ''alarma''))
                 (lower planner_up (recognize_once planner_up 5))"
    by (simp add: planner_up_def lower_def lower_latin1_def core_recognize_once_def lit_def)
  have first: "str_find (lower planner_up (recognize_once planner_up 5))
                 (lower planner_up (lit ''alarma'')) = 13"
    by (simp add: planner_up_def lower_def lower_latin1_def core_recognize_once_def lit_def)
  have len: "length (lower planner_up (lit ''alarma'')) = 6"
    by (simp add: lower_def lower_latin1_def lit_def)
  from process_voice_command_processes_every_utterance
         [OF heard, of "init_assistant None False (lit ''alarma'')"]
  obtain cmd p q where
    cmd: "last_command (snd (process_voice_command planner_up
            (init_assistant None False (lit ''alarma'')) 5)) = Some cmd"
    and pq: "lower planner_up (recognize_once planner_up 5)
               = p @ lower planner_up (lit ''alarma'') @ q"
    and least: "\<forall>p' q'. lower planner_up (recognize_once planner_up 5)
                  = p' @ lower planner_up (lit ''alarma'') @ q' \<longrightarrow> length p \<le> length p'"
    and cut: "cmd = strip (drop (length p + length (lower planner_up (lit ''alarma'')))
                            (recognize_once planner_up 5))"
    using found by (auto simp: init_assistant_def)
  from str_find_first_occurrence [OF found] obtain p0 q0 where
    pq0: "lower planner_up (recognize_once planner_up 5)
               = p0 @ lower planner_up (lit ''alarma'') @ q0"
    and at0: "str_find (lower planner_up (recognize_once planner_up 5))
                 (lower planner_up (lit ''alarma'')) = int (length p0)"
    and least0: "\<forall>p' q'. lower planner_up (recognize_once planner_up 5)
                  = p' @ lower planner_up (lit ''alarma'') @ q' \<longrightarrow> length p0 \<le> length p'"
    by blast
  from least pq0 have "length p \<le> length p0" by blast
  moreover from least0 pq have "length p0 \<le> length p" by blast
  ultimately have "length p = 13" using at0 first by simp
  with cut len have "cmd = strip (drop 19 (recognize_once planner_up 5))" by simp
  then have "cmd = lit ''para las 8 de la ma'' @ [0xF1] @ lit ''ana''"
    by (simp add: planner_up_def core_recognize_once_def lit_def strip_def isspace_def)
  with cmd heard found show ?thesis by simp
qed

subsection \<open>The command text on utterances below U+0100\<close>










section \<open>The background listening loop\<close>

text \<open>
  C6. In every turn of the loop the callback is called exactly when a callback was
  given, the turn ran the voice pipeline (the assistant was neither processing nor asked
  to stop), the pipeline returned a result and the \<open>success\<close> field of that result is
  True; it is then called once, with that result. Otherwise there is no call. Every turn
  begins with the wait of 2 seconds.
\<close>

theorem background_iteration_callback:
  "callback_calls (fst (background_iteration sv cb s)) =
     (case fst (process_voice_command sv s 5) of
        Inl e \<Rightarrow> []
      | Inr r \<Rightarrow>
          if cb \<noteq> None \<and> \<not> is_processing s \<and> \<not> should_stop_background s \<and>
             map_of r (lit ''success'') = Some (VBool True)
          then [r] else []) \<and>
   (\<exists>rest. fst (background_iteration sv cb s) = Sleep 2 # rest)"
proof -
  obtain out s1 where run: "process_voice_command sv s 5 = (out, s1)"
    by (cases "process_voice_command sv s 5")
  show ?thesis
  proof (cases out)
    case (Inl e)
    with run show ?thesis
      by (simp add: background_iteration_def)
  next
    case (Inr r)
    with run process_voice_command_success_field [of sv s 5 r]
    obtain b where b: "map_of r (lit ''success'') = Some (VBool b)" by auto
    show ?thesis
    proof (cases cb)
      case None
      with run Inr show ?thesis
        by (simp add: background_iteration_def)
    next
      case (Some f)
      show ?thesis
      proof (cases "f r")
        case (Inl e)
        with run Inr Some b show ?thesis
          by (simp add: background_iteration_def)
      next
        case (Inr u)
        with run \<open>out = Inr r\<close> Some b show ?thesis
          by (simp add: background_iteration_def)
      qed
    qed
  qed
qed

section \<open>VoskRecognizer.process_audio_file\<close>

lemma json_returned_append [simp]:
  "json_returned (a @ b) = json_returned a @ json_returned b"
  by (induction a rule: json_returned.induct) auto

lemma audio_fed_append [simp]:
  "audio_fed (a @ b) = audio_fed a @ audio_fed b"
  by (induction a rule: audio_fed.induct) auto


















end
